theory Spec2Isabelle
  imports Complex_Main "HOL-Library.Sublist"
begin

section \<open>JavaScript values used by the front end\<close>

text \<open>
  A JavaScript string is modelled as the list of its code units that fit a \<^typ>\<open>char\<close>
  (code units below 256). Quantities are whole numbers (\<^typ>\<open>int\<close>), standing for the
  doubles that hold them.
\<close>

text \<open>
  \<open>String.prototype.trim\<close>: the white space and line terminator code units below 256 are
  TAB, LF, VT, FF, CR, SP and NBSP.
\<close>

definition is_ws :: "char \<Rightarrow> bool" where
  "is_ws c = (of_char c \<in> {9, 10, 11, 12, 13, 32, 160 :: nat})"

definition trim :: "string \<Rightarrow> string" where
  "trim s = rev (dropWhile is_ws (rev (dropWhile is_ws s)))"

text \<open>Decimal rendering of a whole number, as a template literal \<open>${n}\<close> prints it.\<close>

fun digits :: "nat \<Rightarrow> string" where
  "digits n =
     (if n < 10 then [''0123456789'' ! n]
      else digits (n div 10) @ [''0123456789'' ! (n mod 10)])"

definition show_int :: "int \<Rightarrow> string" where
  "show_int i = (if i < 0 then CHR ''-'' # digits (nat (- i)) else digits (nat i))"

text \<open>
  The product \<open>x * 0.2\<close> of a whole number and the literal \<open>0.2\<close>, as IEEE 754 double
  arithmetic computes it. The literal is the double \<open>3602879701896397 / 2^54\<close>; the exact
  product is rounded to 53 significant bits, a tie to the even neighbour. \<open>bit_length\<close>
  is the number of binary digits of a positive number, \<open>round53\<close> rounds a whole number
  to 53 significant bits.
\<close>

function bit_length :: "int \<Rightarrow> nat" where
  "bit_length n = (if n \<le> 0 then 0 else Suc (bit_length (n div 2)))"
  by pat_completeness auto
termination
  by (relation "measure nat") auto

declare bit_length.simps [simp del]

definition round53 :: "int \<Rightarrow> int" where
  "round53 n =
     (let k = bit_length n in
      if k \<le> 53 then n
      else
        let s = k - 53; q = n div 2 ^ s; r = n mod 2 ^ s; h = 2 ^ (s - 1) in
        if r < h \<or> (r = h \<and> even q) then q * 2 ^ s else (q + 1) * 2 ^ s)"

definition times_0_2 :: "int \<Rightarrow> rat" where
  "times_0_2 x = of_int (sgn x * round53 (\<bar>x\<bar> * 3602879701896397)) / 2 ^ 54"

text \<open>
  Property values of the object literals the components build. \<open>JUndefined\<close> is the value
  of \<open>e || undefined\<close> when \<open>e\<close> is the empty string.
\<close>

datatype jsval = JNum int | JStr string | JUndefined

type_synonym jsobj = "(string \<times> jsval) list"

definition or_undefined :: "string \<Rightarrow> jsval" where
  "or_undefined s = (if s = [] then JUndefined else JStr s)"

text \<open>
  The JSON text of an object has no entry for a property whose value is \<open>undefined\<close>; the
  body of a request is the list of the properties that remain, in the object's order.
\<close>

definition json_body :: "jsobj \<Rightarrow> jsobj" where
  "json_body obj = filter (\<lambda>kv. snd kv \<noteq> JUndefined) obj"

section \<open>Data model (types/index.ts)\<close>

text \<open>
  The fields of \<open>Item\<close> that the modelled functions read. The remaining, optional display
  fields (price, dates, condition, notes, image) take no part in any of them.
\<close>

record Item =
  item_id :: int
  item_name :: string
  category :: string
  location :: string
  quantity_total :: int
  quantity_available :: int
  quantity_checked_out :: int
  status :: string

section \<open>Availability badge (ItemCard, ItemDetailsPage)\<close>

datatype Variant = success | warning | danger | info







section \<open>HTTP client (api/client.ts) and asynchronous calls\<close>

datatype Method = GET | POST

record HttpRequest =
  "method" :: Method
  url :: string
  body :: "jsobj option"
  config :: "jsobj option"

text \<open>
  Modelled from the spec: \<open>api/client.ts\<close>, the Axios instance \<open>apiClient\<close>, is not among the
  sources. Following the HTTP surface of the specification, \<open>apiClient.post(url, data)\<close>
  issues a POST to \<open>url\<close> with the JSON text of \<open>data\<close> as its body, and
  \<open>apiClient.get(url, config)\<close> issues a GET to \<open>url\<close> with no body; the second argument of
  \<open>get\<close> is kept as \<open>config\<close>. The \<open>url\<close> of a request is the string the caller passes.
\<close>

definition apiClient_post :: "string \<Rightarrow> jsobj \<Rightarrow> HttpRequest" where
  "apiClient_post u d = \<lparr>method = POST, url = u, body = Some (json_body d), config = None\<rparr>"

definition apiClient_get :: "string \<Rightarrow> jsobj option \<Rightarrow> HttpRequest" where
  "apiClient_get u c = \<lparr>method = GET, url = u, body = None, config = c\<rparr>"







record 'r AxiosResponse =
  data :: 'r

text \<open>
  An \<open>async\<close> function that awaits one request: the request it issues, and what it returns
  once the response is there.
\<close>

datatype ('r, 'a) Async = Await (request: HttpRequest) (resume: "'r AxiosResponse \<Rightarrow> 'a")

section \<open>api/checkout.ts\<close>

definition checkoutItem :: "jsobj \<Rightarrow> ('r, 'r) Async" where
  "checkoutItem d = Await (apiClient_post ''/api/checkout'' d) (\<lambda>response. data response)"

definition checkinItem :: "jsobj \<Rightarrow> ('r, 'r) Async" where
  "checkinItem d = Await (apiClient_post ''/api/checkout/checkin'' d) (\<lambda>response. data response)"


definition getOverdueCheckouts :: "('r, 'r) Async" where
  "getOverdueCheckouts = Await (apiClient_get ''/api/checkout/overdue'' None) (\<lambda>response. data response)"

section \<open>api/inventory.ts\<close>

text \<open>
  \<open>URLSearchParams\<close>: the list of name-value pairs, and its \<open>toString\<close>, the
  \<open>application/x-www-form-urlencoded\<close> serialisation. A code unit from 128 to 255 is
  written as the two bytes of its UTF-8 encoding.
\<close>

type_synonym URLSearchParams = "(string \<times> string) list"

definition hex_byte :: "nat \<Rightarrow> string" where
  "hex_byte b = [CHR ''%'', ''0123456789ABCDEF'' ! (b div 16), ''0123456789ABCDEF'' ! (b mod 16)]"

definition urlencode_char :: "char \<Rightarrow> string" where
  "urlencode_char c =
     (let n = (of_char c :: nat) in
      if n = 32 then ''+''
      else if n \<in> {42, 45, 46, 95} \<or> (48 \<le> n \<and> n \<le> 57) \<or> (65 \<le> n \<and> n \<le> 90)
              \<or> (97 \<le> n \<and> n \<le> 122) then [c]
      else if n < 128 then hex_byte n
      else hex_byte (192 + n div 64) @ hex_byte (128 + n mod 64))"

definition urlencode :: "string \<Rightarrow> string" where
  "urlencode s = concat (map urlencode_char s)"

fun URLSearchParams_toString :: "URLSearchParams \<Rightarrow> string" where
  "URLSearchParams_toString [] = []"
| "URLSearchParams_toString [(k, v)] = urlencode k @ ''='' @ urlencode v"
| "URLSearchParams_toString ((k, v) # ps) =
     urlencode k @ ''='' @ urlencode v @ ''&'' @ URLSearchParams_toString ps"

text \<open>
  \<open>searchInventory\<close>: the object \<open>params\<close> it builds (\<open>location?: string\<close> is \<open>None\<close>
  when the argument is absent; \<open>if (location)\<close> holds for a non-empty string), and the
  call itself.
\<close>

definition searchInventory_params :: "string \<Rightarrow> string option \<Rightarrow> URLSearchParams" where
  "searchInventory_params query loc =
     (let params = [(''q'', query)] in
      case loc of
        None \<Rightarrow> params
      | Some l \<Rightarrow> if l \<noteq> [] then params @ [(''location'', l)] else params)"

definition searchInventory :: "string \<Rightarrow> string option \<Rightarrow> ('r, 'r) Async" where
  "searchInventory query loc =
     Await (apiClient_get
              (''/api/inventory/search?'' @ URLSearchParams_toString (searchInventory_params query loc))
              None)
           (\<lambda>response. data response)"

section \<open>CheckoutModal\<close>

datatype Condition = good | fair | poor

definition condition_str :: "Condition \<Rightarrow> string" where
  "condition_str c = (case c of good \<Rightarrow> ''good'' | fair \<Rightarrow> ''fair'' | poor \<Rightarrow> ''poor'')"

text \<open>
  The state \<open>formData\<close>. The quantity field holds \<open>parseInt(value) || 1\<close>, a whole number;
  the condition is one of the three options of the select.
\<close>

record CheckoutFormState =
  ldap :: string
  quantity :: int
  expectedReturn :: string
  condition :: Condition
  "notes" :: string

text \<open>\<open>Record<string, string>\<close>: the properties in the order of their assignment.\<close>

type_synonym Errors = "(string \<times> string) list"

fun set_prop :: "string \<Rightarrow> 'v \<Rightarrow> (string \<times> 'v) list \<Rightarrow> (string \<times> 'v) list" where
  "set_prop k v [] = [(k, v)]"
| "set_prop k v (p # ps) = (if fst p = k then (k, v) # ps else p # set_prop k v ps)"

record CheckoutModalState =
  formData :: CheckoutFormState
  errors :: Errors

text \<open>\<open>validate\<close>: the errors it passes to \<open>setErrors\<close>, and its result.\<close>

definition CheckoutModal_validate :: "Item \<Rightarrow> CheckoutFormState \<Rightarrow> Errors \<times> bool" where
  "CheckoutModal_validate item fd =
     (let newErrors = [];
          newErrors = (if trim (ldap fd) = [] then
                         set_prop ''ldap'' ''LDAP username is required'' newErrors
                       else newErrors);
          newErrors = (if quantity fd < 1 then
                         set_prop ''quantity'' ''Quantity must be at least 1'' newErrors
                       else if quantity fd > quantity_available item then
                         set_prop ''quantity''
                           (''Only '' @ show_int (quantity_available item) @ '' available'') newErrors
                       else newErrors)
      in (newErrors, length (map fst newErrors) = 0))"

text \<open>
  \<open>handleSubmit\<close>: the new state, and the argument of \<open>checkoutMutation.mutate\<close> when it
  is called.
\<close>

definition CheckoutModal_handleSubmit ::
  "Item \<Rightarrow> CheckoutModalState \<Rightarrow> CheckoutModalState \<times> jsobj option" where
  "CheckoutModal_handleSubmit item st =
     (let fd = formData st; (newErrors, ok) = CheckoutModal_validate item fd;
          st' = st\<lparr>errors := newErrors\<rparr>
      in if \<not> ok then (st', None)
         else (st', Some
                 [(''item_id'', JNum (item_id item)),
                  (''user_ldap'', JStr (trim (ldap fd))),
                  (''quantity'', JNum (quantity fd)),
                  (''expected_return_datetime'', or_undefined (expectedReturn fd)),
                  (''checkout_condition'', JStr (condition_str (condition fd))),
                  (''notes'', or_undefined (trim (notes fd)))]))"

text \<open>\<open>checkoutMutation\<close>: \<open>useMutation\<close> with \<open>mutationFn: checkoutItem\<close>.\<close>

definition checkoutMutation_mutate :: "jsobj \<Rightarrow> ('r, 'r) Async" where
  "checkoutMutation_mutate variables = checkoutItem variables"

section \<open>CheckinModal\<close>

text \<open>
  \<open>ActiveCheckout\<close>: the fields the modelled functions read or compute; times are seconds.
  The joined display fields of the item and the user are left out.
\<close>

record ActiveCheckout =
  checkout_id :: int
  checkout_date :: int
  expected_return_datetime :: int
  is_overdue :: bool
  days_overdue :: int

record CheckinFormState =
  returnCondition :: Condition
  returnNotes :: string

text \<open>
  \<open>handleSubmit\<close> validates nothing: it always calls \<open>checkinMutation.mutate\<close>, with this
  argument.
\<close>

definition CheckinModal_handleSubmit :: "ActiveCheckout \<Rightarrow> CheckinFormState \<Rightarrow> jsobj" where
  "CheckinModal_handleSubmit checkout fd =
     [(''checkout_id'', JNum (checkout_id checkout)),
      (''return_condition'', JStr (condition_str (returnCondition fd))),
      (''return_notes'', or_undefined (trim (returnNotes fd)))]"

text \<open>\<open>checkinMutation\<close>: \<open>useMutation\<close> with \<open>mutationFn: checkinItem\<close>.\<close>

definition checkinMutation_mutate :: "jsobj \<Rightarrow> ('r, 'r) Async" where
  "checkinMutation_mutate variables = checkinItem variables"

section \<open>DashboardPage\<close>

record Stats =
  totalItems :: nat
  availableItems :: nat
  outOfStock :: nat
  lowStock :: nat
  activeCheckouts :: nat
  overdueCheckouts :: nat

definition DashboardPage_stats :: "Item list \<Rightarrow> ActiveCheckout list \<Rightarrow> ActiveCheckout list \<Rightarrow> Stats" where
  "DashboardPage_stats items' activeCheckouts' overdueCheckouts' =
     \<lparr>totalItems = length items',
      availableItems = length (filter (\<lambda>item. quantity_available item > 0) items'),
      outOfStock = length (filter (\<lambda>item. quantity_available item = 0) items'),
      lowStock = length (filter (\<lambda>item. quantity_available item > 0 \<and>
          of_int (quantity_available item) < times_0_2 (quantity_total item)) items'),
      activeCheckouts = length activeCheckouts',
      overdueCheckouts = length overdueCheckouts'\<rparr>"


section \<open>Action buttons of ItemCard and ItemDetailsPage\<close>

text \<open>
  What a rendered action row holds: links (target, text) and buttons (text, disabled,
  the event of its \<open>onClick\<close>, if it has one).
\<close>

datatype 'e Control = Link string string | Button string bool "'e option"

text \<open>The events a user can raise: those of the buttons that are not disabled.\<close>

fun clickable :: "'e Control list \<Rightarrow> 'e list" where
  "clickable [] = []"
| "clickable (Button t False (Some e) # cs) = e # clickable cs"
| "clickable (c # cs) = clickable cs"

text \<open>\<open>ItemCard\<close>: \<open>onCheckout\<close> is an optional property.\<close>

definition ItemCard_actions :: "Item \<Rightarrow> (Item \<Rightarrow> 'e) option \<Rightarrow> 'e Control list" where
  "ItemCard_actions item onCheckout =
     [Link (''/item/'' @ show_int (item_id item)) ''View Details''] @
     (case onCheckout of
        Some h \<Rightarrow> if quantity_available item > 0 then [Button ''Checkout'' False (Some (h item))] else []
      | None \<Rightarrow> [])"

datatype PageEvent = setIsCheckoutModalOpen bool

definition ItemDetailsPage_actions :: "Item \<Rightarrow> PageEvent Control list" where
  "ItemDetailsPage_actions item =
     [if quantity_available item > 0 then
        Button ''Checkout Item'' False (Some (setIsCheckoutModalOpen True))
      else Button ''Out of Stock'' True None,
      Link (''/checkouts?item_id='' @ show_int (item_id item)) ''View Active Checkouts'']"

section \<open>Checkout and check-in service, query projections\<close>

text \<open>
  Modelled from the spec: the backend (the Flask service and its store) is not among the
  sources. The store, the operations \<open>checkout\<close> and \<open>checkin\<close>, the derived values
  \<open>is_overdue\<close> and \<open>days_overdue\<close>, and the projections \<open>listActive\<close> and \<open>search\<close>
  follow sections 3, 4 and 7 of the specification. Times are seconds;
  quantities are whole numbers, so the failure \<open>InvalidQuantity\<close> is that of a quantity
  that is not positive.
\<close>

record UserRow =
  user_id :: int
  user_ldap :: string
  full_name :: string

record CheckoutRow =
  co_checkout_id :: int
  co_item_id :: int
  co_user_id :: int
  co_quantity :: int
  co_checkout_date :: int
  co_expected_return_datetime :: int
  co_checkout_condition :: Condition
  co_notes :: "string option"

record HistoryRow =
  closed :: CheckoutRow
  return_date :: int
  return_condition :: Condition
  is_returned :: bool
  late_return :: bool
  return_notes :: "string option"

record Store =
  items :: "Item list"
  users :: "UserRow list"
  checkouts :: "CheckoutRow list"
  history :: "HistoryRow list"
  next_checkout_id :: int

datatype ServiceError =
  ItemNotFound | UserNotFound | InsufficientQuantity | InvalidQuantity
  | CheckoutNotFound | AlreadyReturned

definition seconds_per_day :: int where
  "seconds_per_day = 86400"

text \<open>
  Modelled from the spec: \<open>checkout(item_id, user_ldap, quantity, expected_return_datetime?,
  condition, notes?)\<close> at the time \<open>now\<close>. An active item is one whose status is
  \<open>active\<close>. Every failure leaves the store as it is.
\<close>

definition checkout ::
  "Store \<Rightarrow> int \<Rightarrow> int \<Rightarrow> string \<Rightarrow> int \<Rightarrow> int option \<Rightarrow> Condition \<Rightarrow> string option
     \<Rightarrow> ServiceError + (Store \<times> CheckoutRow)" where
  "checkout s now iid uldap qty expected cond nts =
     (if qty \<le> 0 then Inl InvalidQuantity
      else case find (\<lambda>i. item_id i = iid \<and> status i = ''active'') (items s) of
        None \<Rightarrow> Inl ItemNotFound
      | Some it \<Rightarrow>
         (case find (\<lambda>u. user_ldap u = uldap) (users s) of
            None \<Rightarrow> Inl UserNotFound
          | Some u \<Rightarrow>
             if qty > quantity_available it then Inl InsufficientQuantity
             else
               let row = \<lparr>co_checkout_id = next_checkout_id s, co_item_id = iid,
                          co_user_id = user_id u, co_quantity = qty, co_checkout_date = now,
                          co_expected_return_datetime =
                            (case expected of None \<Rightarrow> now + 7 * seconds_per_day | Some e \<Rightarrow> e),
                          co_checkout_condition = cond, co_notes = nts\<rparr>
               in Inr (s\<lparr>items := map (\<lambda>i. if item_id i = iid then
                                  i\<lparr>quantity_available := quantity_available i - qty,
                                    quantity_checked_out := quantity_checked_out i + qty\<rparr>
                                else i) (items s),
                         checkouts := checkouts s @ [row],
                         next_checkout_id := next_checkout_id s + 1\<rparr>, row)))"

text \<open>
  Modelled from the spec: \<open>checkin(checkout_id, return_condition, return_notes?)\<close> at the
  time \<open>now\<close>. A checkout that is no longer open but has a history record fails with
  \<open>AlreadyReturned\<close>.
\<close>

definition checkin ::
  "Store \<Rightarrow> int \<Rightarrow> int \<Rightarrow> Condition \<Rightarrow> string option \<Rightarrow> ServiceError + (Store \<times> HistoryRow)" where
  "checkin s now cid rcond rnotes =
     (case find (\<lambda>c. co_checkout_id c = cid) (checkouts s) of
        None \<Rightarrow>
          if find (\<lambda>h. co_checkout_id (closed h) = cid) (history s) \<noteq> None
          then Inl AlreadyReturned else Inl CheckoutNotFound
      | Some c \<Rightarrow>
          let h = \<lparr>closed = c, return_date = now, return_condition = rcond, is_returned = True,
                   late_return = (now > co_expected_return_datetime c), return_notes = rnotes\<rparr>
          in Inr (s\<lparr>items := map (\<lambda>i. if item_id i = co_item_id c then
                                i\<lparr>quantity_available := quantity_available i + co_quantity c,
                                  quantity_checked_out := quantity_checked_out i - co_quantity c\<rparr>
                              else i) (items s),
                    checkouts := filter (\<lambda>c'. co_checkout_id c' \<noteq> cid) (checkouts s),
                    history := history s @ [h]\<rparr>, h))"

text \<open>
  The requests the service receives, and the store after a request: a request that fails
  changes nothing, the next request meets the store the last one left.
\<close>

datatype Op =
  Checkout int int string int "int option" Condition "string option"
  | Checkin int int Condition "string option"

fun apply_op :: "Store \<Rightarrow> Op \<Rightarrow> Store" where
  "apply_op s (Checkout now iid uldap qty expected cond nts) =
     (case checkout s now iid uldap qty expected cond nts of Inl e \<Rightarrow> s | Inr r \<Rightarrow> fst r)"
| "apply_op s (Checkin now cid rcond rnotes) =
     (case checkin s now cid rcond rnotes of Inl e \<Rightarrow> s | Inr r \<Rightarrow> fst r)"

definition run :: "Store \<Rightarrow> Op list \<Rightarrow> Store" where
  "run s ops = foldl apply_op s ops"

text \<open>The invariant of section 3, for one item and for every item of the store.\<close>

definition item_invariant :: "Item \<Rightarrow> bool" where
  "item_invariant i = (quantity_available i + quantity_checked_out i = quantity_total i)"

definition store_invariant :: "Store \<Rightarrow> bool" where
  "store_invariant s = list_all item_invariant (items s)"

text \<open>
  Modelled from the spec: \<open>is_overdue\<close> = (no return yet) and (now > expected return);
  \<open>days_overdue\<close> = the whole days between now and the expected return, 0 when not
  overdue. The return date is \<open>None\<close> for an open checkout.
\<close>

definition compute_is_overdue :: "int \<Rightarrow> int option \<Rightarrow> int \<Rightarrow> bool" where
  "compute_is_overdue now returned expected = (returned = None \<and> now > expected)"

definition compute_days_overdue :: "int \<Rightarrow> int option \<Rightarrow> int \<Rightarrow> int" where
  "compute_days_overdue now returned expected =
     (if compute_is_overdue now returned expected then (now - expected) div seconds_per_day else 0)"

text \<open>Modelled from the spec: \<open>listActive\<close>, every open checkout with its derived values.\<close>

definition listActive :: "Store \<Rightarrow> int \<Rightarrow> ActiveCheckout list" where
  "listActive s now =
     map (\<lambda>c. \<lparr>checkout_id = co_checkout_id c, checkout_date = co_checkout_date c,
               expected_return_datetime = co_expected_return_datetime c,
               is_overdue = compute_is_overdue now None (co_expected_return_datetime c),
               days_overdue = compute_days_overdue now None (co_expected_return_datetime c)\<rparr>)
       (checkouts s)"

text \<open>
  Modelled from the spec: \<open>search(query, location?)\<close>, a case-insensitive substring match
  against item name and category, optionally filtered by location, in stable order by
  \<open>item_id\<close>. Case is folded on the letters A to Z.
\<close>

definition lower_char :: "char \<Rightarrow> char" where
  "lower_char c =
     (let n = (of_char c :: nat) in if 65 \<le> n \<and> n \<le> 90 then char_of (n + 32) else c)"

definition lower :: "string \<Rightarrow> string" where
  "lower s = map lower_char s"

definition matches :: "string \<Rightarrow> Item \<Rightarrow> bool" where
  "matches query i =
     (sublist (lower query) (lower (item_name i)) \<or> sublist (lower query) (lower (category i)))"

definition in_location :: "string option \<Rightarrow> Item \<Rightarrow> bool" where
  "in_location loc i = (case loc of None \<Rightarrow> True | Some l \<Rightarrow> location i = l)"

definition search :: "Item list \<Rightarrow> string \<Rightarrow> string option \<Rightarrow> Item list" where
  "search its query loc =
     sort_key item_id (filter (\<lambda>i. matches query i \<and> in_location loc i) its)"

section \<open>Example data\<close>

text \<open>The scenario of section 8 of the specification: one item, five in total, all available.\<close>

definition ex_item :: Item where
  "ex_item = \<lparr>item_id = 7, item_name = ''Cordless Drill'', category = ''tools'',
               location = ''san_jose'', quantity_total = 5, quantity_available = 5,
               quantity_checked_out = 0, status = ''active''\<rparr>"

definition ex_store :: Store where
  "ex_store = \<lparr>items = [ex_item],
                users = [\<lparr>user_id = 1, user_ldap = ''abc'', full_name = ''A B C''\<rparr>],
                checkouts = [], history = [], next_checkout_id = 1\<rparr>"

definition ex_ops :: "Op list" where
  "ex_ops = [Checkout 1000 7 ''abc'' 2 None good None, Checkin 2000 1 good None]"

definition ex_form :: CheckoutModalState where
  "ex_form = \<lparr>formData = \<lparr>ldap = '' abc '', quantity = 2, expectedReturn = [],
                            condition = good, notes = ''  ''\<rparr>,
               errors = []\<rparr>"

definition ex_form_full :: CheckoutModalState where
  "ex_form_full = \<lparr>formData = \<lparr>ldap = ''abc'', quantity = 5, expectedReturn = ''2026-01-31T17:00'',
                                 condition = fair, notes = '' for the demo ''\<rparr>,
                    errors = []\<rparr>"

definition ex_items :: "Item list" where
  "ex_items = [ex_item\<lparr>quantity_total := 10, quantity_available := 0, quantity_checked_out := 10\<rparr>,
               ex_item\<lparr>quantity_total := 10, quantity_available := 1, quantity_checked_out := 9\<rparr>,
               ex_item\<lparr>quantity_total := 10, quantity_available := 8, quantity_checked_out := 2\<rparr>]"

definition ex_out_of_stock :: Item where
  "ex_out_of_stock = ex_item\<lparr>quantity_available := 0, quantity_checked_out := 5\<rparr>"


definition ex_negative :: Item where
  "ex_negative = ex_item\<lparr>quantity_available := - 1, quantity_checked_out := 6\<rparr>"

section \<open>Theorems\<close>

subsection \<open>Quantity conservation\<close>

lemma checkout_preserves:
  assumes "store_invariant s" and "checkout s now iid uldap qty expected cond nts = Inr r"
  shows "store_invariant (fst r)"
proof -
  have "list_all item_invariant
          (map (\<lambda>i. if item_id i = iid then
                      i\<lparr>quantity_available := quantity_available i - qty,
                        quantity_checked_out := quantity_checked_out i + qty\<rparr>
                    else i) (items s))"
    using assms(1) by (auto simp: store_invariant_def item_invariant_def list_all_iff)
  with assms(2) show ?thesis
    by (auto simp: checkout_def store_invariant_def Let_def split: if_splits option.splits)
qed

lemma checkin_preserves:
  assumes "store_invariant s" and "checkin s now cid rcond rnotes = Inr r"
  shows "store_invariant (fst r)"
proof -
  have "list_all item_invariant
          (map (\<lambda>i. if item_id i = k then
                      i\<lparr>quantity_available := quantity_available i + q,
                        quantity_checked_out := quantity_checked_out i - q\<rparr>
                    else i) (items s))" for k q
    using assms(1) by (auto simp: store_invariant_def item_invariant_def list_all_iff)
  with assms(2) show ?thesis
    by (auto simp: checkin_def store_invariant_def Let_def split: if_splits option.splits)
qed

lemma apply_op_preserves: "store_invariant s \<Longrightarrow> store_invariant (apply_op s op)"
  by (cases op) (auto split: sum.splits dest: checkout_preserves checkin_preserves)

lemma run_preserves: "store_invariant s \<Longrightarrow> store_invariant (run s ops)"
  unfolding run_def
  by (induction ops arbitrary: s) (simp_all add: apply_op_preserves)

text \<open>
  C1. In a store where every item satisfies
  \<open>quantity_available + quantity_checked_out = quantity_total\<close>, every item still satisfies
  it after any sequence of checkout and check-in requests, and in particular after one
  checkout and after one check-in.
\<close>

theorem quantity_conservation:
  assumes "store_invariant s"
  shows "store_invariant (run s ops)
       \<and> (case checkout s now iid uldap qty expected cond nts of
            Inl e \<Rightarrow> True | Inr r \<Rightarrow> store_invariant (fst r))
       \<and> (case checkin s now' cid rcond rnotes of
            Inl e \<Rightarrow> True | Inr r \<Rightarrow> store_invariant (fst r))"
  using assms
  by (auto simp: run_preserves split: sum.splits dest: checkout_preserves checkin_preserves)

theorem quantity_conservation_witness:
  "store_invariant ex_store
   \<and> store_invariant (run ex_store ex_ops)
   \<and> \<not> isl (checkout ex_store 1000 7 ''abc'' 2 None good None)
   \<and> store_invariant (fst (projr (checkout ex_store 1000 7 ''abc'' 2 None good None)))
   \<and> \<not> isl (checkin (run ex_store (take 1 ex_ops)) 2000 1 good None)
   \<and> store_invariant (fst (projr (checkin (run ex_store (take 1 ex_ops)) 2000 1 good None)))
   \<and> map (\<lambda>i. (quantity_available i, quantity_checked_out i, quantity_total i))
        (items (run ex_store (take 1 ex_ops))) = [(3, 2, 5)]
   \<and> map (\<lambda>i. (quantity_available i, quantity_checked_out i, quantity_total i))
        (items (run ex_store ex_ops)) = [(5, 0, 5)]"
proof -
  let ?s1 = "run ex_store (take 1 ex_ops)"
  have h: "store_invariant ex_store"
    by code_simp
  have out_ok: "\<not> isl (checkout ex_store 1000 7 ''abc'' 2 None good None)"
    by code_simp
  have in_ok: "\<not> isl (checkin ?s1 2000 1 good None)"
    by code_simp
  have a: "map (\<lambda>i. (quantity_available i, quantity_checked_out i, quantity_total i))
        (items ?s1) = [(3, 2, 5)]"
    by code_simp
  have b: "map (\<lambda>i. (quantity_available i, quantity_checked_out i, quantity_total i))
        (items (run ex_store ex_ops)) = [(5, 0, 5)]"
    by code_simp
  note first = quantity_conservation
    [OF h, of ex_ops 1000 7 "''abc''" 2 None good None 2000 1 good None]
  have c: "store_invariant (run ex_store ex_ops)"
    using first by (rule conjunct1)
  have d: "store_invariant (fst (projr (checkout ex_store 1000 7 ''abc'' 2 None good None)))"
    using first out_ok
    by (cases "checkout ex_store 1000 7 ''abc'' 2 None good None") simp_all
  have h1: "store_invariant ?s1"
    using quantity_conservation
      [OF h, of "take 1 ex_ops" 1000 7 "''abc''" 2 None good None 2000 1 good None]
    by (rule conjunct1)
  have e: "store_invariant (fst (projr (checkin ?s1 2000 1 good None)))"
    using quantity_conservation
      [OF h1, of "[]" 1000 7 "''abc''" 2 None good None 2000 1 good None] in_ok
    by (cases "checkin ?s1 2000 1 good None") simp_all
  from h c out_ok d in_ok e a b show ?thesis
    by (intro conjI)
qed

subsection \<open>Availability status\<close>

text \<open>
  The double product against the exact one. A number of more than 53 binary digits is
  rounded to a multiple of \<open>2 ^ (bit_length n - 53)\<close> at most half that far away
  (\<open>round53_near\<close>). So the rounded product \<open>t * 0.2\<close> lies above every whole number below
  a fifth of \<open>t\<close> (\<open>round53_lower\<close>) and not above any other (\<open>round53_upper\<close>), as long as
  \<open>t\<close> is below \<open>2^53\<close>.
\<close>

lemma bit_length_pos: "0 < n \<Longrightarrow> bit_length n = Suc (bit_length (n div 2))"
  by (simp add: bit_length.simps [of n])

lemma bit_length_nonpos: "n \<le> 0 \<Longrightarrow> bit_length n = 0"
  by (simp add: bit_length.simps [of n])

lemma bit_length_bounds: "0 < n \<Longrightarrow> 2 ^ (bit_length n - 1) \<le> n \<and> n < 2 ^ bit_length n"
proof (induction n rule: bit_length.induct)
  case (1 n)
  have bl: "bit_length n = Suc (bit_length (n div 2))"
    using 1(2) by (rule bit_length_pos)
  show ?case
  proof (cases "0 < n div 2")
    case False
    with 1(2) have "n = 1" by linarith
    then show ?thesis by (simp add: bit_length_pos bit_length_nonpos)
  next
    case True
    with 1 have ih: "2 ^ (bit_length (n div 2) - 1) \<le> n div 2 \<and> n div 2 < 2 ^ bit_length (n div 2)"
      by simp
    obtain j where j: "bit_length (n div 2) = Suc j"
      using bit_length_pos [OF True] by simp
    have lo: "2 * (n div 2) \<le> n" by simp
    have hi: "n < 2 * (n div 2) + 2" by linarith
    from ih j have a: "2 ^ j \<le> n div 2" and b: "n div 2 < 2 * 2 ^ j" by simp_all
    from a lo have "2 * 2 ^ j \<le> n" by linarith
    moreover from b hi have "n < 2 * (2 * 2 ^ j)" by linarith
    ultimately show ?thesis by (simp add: bl j)
  qed
qed


lemma round53_exact: "bit_length n \<le> 53 \<Longrightarrow> round53 n = n"
  by (simp add: round53_def)

lemma round53_cases:
  assumes "53 < bit_length n"
  obtains q r s h where "s = bit_length n - 53" "h = (2::int) ^ (s - 1)" "2 ^ s = 2 * h"
    "n = q * (2 * h) + r" "0 \<le> r" "r < 2 * h"
    "round53 n = (if r < h \<or> (r = h \<and> even q) then q * (2 * h) else (q + 1) * (2 * h))"
proof -
  define s where "s = bit_length n - 53"
  define h where "h = (2::int) ^ (s - 1)"
  define q where "q = n div 2 ^ s"
  define r where "r = n mod 2 ^ s"
  from assms have "0 < s" by (simp add: s_def)
  then have p: "(2::int) ^ s = 2 * h"
    by (cases s) (simp_all add: h_def)
  have "n = n div 2 ^ s * 2 ^ s + n mod 2 ^ s"
    by (rule div_mult_mod_eq [symmetric])
  then have n: "n = q * (2 * h) + r"
    by (simp only: q_def r_def p)
  have "0 \<le> n mod 2 ^ s" "n mod 2 ^ s < 2 ^ s"
    by simp_all
  then have r0: "0 \<le> r" and r1: "r < 2 * h"
    by (simp_all only: r_def p)
  have "round53 n =
      (if n mod 2 ^ s < 2 ^ (s - 1) \<or> (n mod 2 ^ s = 2 ^ (s - 1) \<and> even (n div 2 ^ s))
       then n div 2 ^ s * 2 ^ s else (n div 2 ^ s + 1) * 2 ^ s)"
    using assms by (simp add: round53_def Let_def s_def)
  then have "round53 n = (if r < h \<or> (r = h \<and> even q) then q * 2 ^ s else (q + 1) * 2 ^ s)"
    by (simp only: q_def r_def h_def)
  then have "round53 n = (if r < h \<or> (r = h \<and> even q) then q * (2 * h) else (q + 1) * (2 * h))"
    by (simp only: p)
  with s_def h_def p n r0 r1 show thesis
    by (rule that)
qed

lemma round53_near:
  assumes "53 < bit_length n"
  shows "n \<le> round53 n + 2 ^ (bit_length n - 54)"
    and "round53 n \<le> n + 2 ^ (bit_length n - 54)"
    and "2 ^ (bit_length n - 53) dvd round53 n"
proof -
  from assms obtain q r s h where *: "s = bit_length n - 53" "h = (2::int) ^ (s - 1)" "2 ^ s = 2 * h"
    "n = q * (2 * h) + r" "0 \<le> r" "r < 2 * h"
    "round53 n = (if r < h \<or> (r = h \<and> even q) then q * (2 * h) else (q + 1) * (2 * h))"
    by (rule round53_cases)
  have h: "h = 2 ^ (bit_length n - 54)"
    using *(1,2) by simp
  have a: "n \<le> round53 n + h" and b: "round53 n \<le> n + h"
    using *(4-7) by (auto simp: algebra_simps split: if_splits)
  from a h show "n \<le> round53 n + 2 ^ (bit_length n - 54)" by simp
  from b h show "round53 n \<le> n + 2 ^ (bit_length n - 54)" by simp
  have "2 * h dvd round53 n"
    using *(7) by simp
  with *(1,3) show "2 ^ (bit_length n - 53) dvd round53 n" by simp
qed


lemma pow_split: "m \<le> k \<Longrightarrow> (2::int) ^ k = 2 ^ m * 2 ^ (k - m)"
  by (simp add: power_add [symmetric])

lemma round53_lower:
  assumes "0 \<le> n"
  shows "(2 ^ 53 - 1) * n \<le> 2 ^ 53 * round53 n"
proof (cases "bit_length n \<le> 53")
  case True
  with assms show ?thesis by (simp add: round53_exact algebra_simps)
next
  case False
  then have k: "53 < bit_length n" by simp
  then have pos: "0 < n"
    using bit_length_nonpos [of n] by (cases "0 < n") simp_all
  define h :: int where "h = 2 ^ (bit_length n - 54)"
  have "(2::int) ^ (bit_length n - 1) = 2 ^ 53 * 2 ^ (bit_length n - 1 - 53)"
    using k by (intro pow_split) simp
  moreover have "bit_length n - 1 - 53 = bit_length n - 54"
    by simp
  ultimately have "(2::int) ^ (bit_length n - 1) = 2 ^ 53 * h"
    by (simp only: h_def)
  with bit_length_bounds [OF pos] have hn: "2 ^ 53 * h \<le> n"
    by simp
  from round53_near(1) [OF k] have "n \<le> round53 n + h"
    by (simp add: h_def)
  with hn show ?thesis by simp
qed

lemma round53_upper:
  assumes a: "0 \<le> a" and n0: "0 \<le> n" and na: "n \<le> a * 2 ^ 54 + a" and nb: "n < 2 ^ 107"
  shows "round53 n \<le> a * 2 ^ 54"
proof (cases "bit_length n \<le> 53")
  case True
  show ?thesis
  proof (cases "a = 0")
    case True
    with na n0 have "n = 0" by simp
    with True show ?thesis by (simp add: round53_exact bit_length_nonpos)
  next
    case False
    with a have "1 \<le> a" by simp
    then have big: "(2::int) ^ 54 \<le> a * 2 ^ 54" by simp
    have "n < 2 ^ 53"
    proof (cases "0 < n")
      case True
      from bit_length_bounds [OF True] have "n < 2 ^ bit_length n" by simp
      also have "(2::int) ^ bit_length n \<le> 2 ^ 53"
        using \<open>bit_length n \<le> 53\<close> by (intro power_increasing) simp_all
      finally show ?thesis .
    next
      case False
      then show ?thesis by simp
    qed
    with big \<open>bit_length n \<le> 53\<close> show ?thesis
      by (simp add: round53_exact)
  qed
next
  case False
  then have k: "53 < bit_length n" by simp
  then have pos: "0 < n"
    using bit_length_nonpos [of n] by (cases "0 < n") simp_all
  define s where "s = bit_length n - 53"
  define h :: int where "h = 2 ^ (bit_length n - 54)"
  have hpos: "0 < h" by (simp add: h_def)
  have p: "(2::int) ^ s = 2 * h"
    using k by (simp add: s_def h_def power_Suc [symmetric] Suc_diff_le del: power_Suc)
  have s54: "s \<le> 54"
  proof (rule ccontr)
    assume "\<not> s \<le> 54"
    then have "108 \<le> bit_length n" by (simp add: s_def)
    then have "(2::int) ^ 107 \<le> 2 ^ (bit_length n - 1)"
      by (intro power_increasing) simp_all
    with bit_length_bounds [OF pos] nb show False by simp
  qed
  have dR: "2 ^ s dvd round53 n"
    using round53_near(3) [OF k] by (simp add: s_def)
  have "(2::int) ^ s dvd 2 ^ 54"
    using s54 by (rule le_imp_power_dvd)
  then have dA: "2 ^ s dvd a * 2 ^ 54"
    by (rule dvd_mult)
  show ?thesis
  proof (rule ccontr)
    assume "\<not> round53 n \<le> a * 2 ^ 54"
    then have gt: "a * 2 ^ 54 < round53 n" by simp
    from dR dA have "2 ^ s dvd round53 n - a * 2 ^ 54"
      by (rule dvd_diff)
    with gt have "2 ^ s \<le> round53 n - a * 2 ^ 54"
      by (intro zdvd_imp_le) simp_all
    with p have step: "a * 2 ^ 54 + 2 * h \<le> round53 n" by simp
    from round53_near(2) [OF k] have "round53 n \<le> n + h"
      by (simp add: h_def)
    with step have far: "a * 2 ^ 54 + h \<le> n" by simp
    with hpos have "a * 2 ^ 54 < n" by simp
    also from bit_length_bounds [OF pos] have "n < 2 ^ bit_length n" by simp
    also have "(2::int) ^ bit_length n = 2 ^ 54 * h"
      unfolding h_def using k by (intro pow_split) simp
    finally have "a < h" by simp
    with far na show False by simp
  qed
qed

lemma times_0_2_less_iff:
  assumes "0 \<le> t" and "t < 2 ^ 53"
  shows "(of_int a < times_0_2 t) = (5 * a < t)"
proof (cases "t = 0")
  case True
  then show ?thesis by (simp add: times_0_2_def)
next
  case False
  with assms have tpos: "0 < t" by simp
  define n where "n = t * 3602879701896397"
  have n0: "0 \<le> n" using tpos by (simp add: n_def)
  have val: "times_0_2 t = of_int (round53 n) / 2 ^ 54"
    using tpos by (simp add: times_0_2_def n_def)
  have cmp: "(of_int a < times_0_2 t) = (a * 2 ^ 54 < round53 n)"
  proof -
    have "(of_int a < (of_int (round53 n) :: rat) / 2 ^ 54)
        = ((of_int a :: rat) * 2 ^ 54 < of_int (round53 n))"
      by (simp add: pos_less_divide_eq)
    also have "\<dots> = ((of_int (a * 2 ^ 54) :: rat) < of_int (round53 n))"
      by simp
    also have "\<dots> = (a * 2 ^ 54 < round53 n)"
      by (simp only: of_int_less_iff)
    finally show ?thesis by (simp only: val)
  qed
  show ?thesis
  proof (cases "5 * a < t")
    case True
    from round53_lower [OF n0] have low: "(2 ^ 53 - 1) * n \<le> 2 ^ 53 * round53 n" .
    have "2 ^ 53 * (a * 2 ^ 54) < (2 ^ 53 - 1) * n"
      using True assms(2) tpos by (simp add: n_def)
    with low have "a * 2 ^ 54 < round53 n" by simp
    with True cmp show ?thesis by simp
  next
    case False
    then have le: "t \<le> 5 * a" by simp
    with tpos have a0: "0 \<le> a" by simp
    have na: "n \<le> a * 2 ^ 54 + a"
      using le by (simp add: n_def)
    have nb: "n < 2 ^ 107"
      using assms(2) tpos by (simp add: n_def)
    from round53_upper [OF a0 n0 na nb] have "round53 n \<le> a * 2 ^ 54" .
    with False cmp show ?thesis by simp
  qed
qed







subsection \<open>Checkout form\<close>

lemma validate_ok:
  "snd (CheckoutModal_validate item fd)
     = (\<not> (quantity fd < 1 \<or> quantity fd > quantity_available item \<or> trim (ldap fd) = []))"
  by (auto simp: CheckoutModal_validate_def Let_def)

lemma validate_keys:
  "map fst (fst (CheckoutModal_validate item fd)) =
     (if trim (ldap fd) = [] then [''ldap''] else []) @
     (if quantity fd < 1 \<or> quantity fd > quantity_available item then [''quantity''] else [])"
  by (auto simp: CheckoutModal_validate_def Let_def)

lemma handleSubmit_errors:
  "errors (fst (CheckoutModal_handleSubmit item st)) = fst (CheckoutModal_validate item (formData st))"
  by (simp add: CheckoutModal_handleSubmit_def Let_def split: prod.splits)

lemma handleSubmit_None:
  "(snd (CheckoutModal_handleSubmit item st) = None)
     = (\<not> snd (CheckoutModal_validate item (formData st)))"
  by (simp add: CheckoutModal_handleSubmit_def Let_def split: prod.splits)

lemma handleSubmit_Some:
  "snd (CheckoutModal_validate item (formData st)) \<Longrightarrow>
   snd (CheckoutModal_handleSubmit item st) = Some
     [(''item_id'', JNum (item_id item)),
      (''user_ldap'', JStr (trim (ldap (formData st)))),
      (''quantity'', JNum (quantity (formData st))),
      (''expected_return_datetime'', or_undefined (expectedReturn (formData st))),
      (''checkout_condition'', JStr (condition_str (condition (formData st)))),
      (''notes'', or_undefined (trim (notes (formData st))))]"
  by (cases "CheckoutModal_validate item (formData st)")
     (simp add: CheckoutModal_handleSubmit_def Let_def)

lemma json_body_Cons:
  "json_body ((k, v) # obj) = (if v = JUndefined then json_body obj else (k, v) # json_body obj)"
  by (simp add: json_body_def)

lemma json_body_Nil: "json_body [] = []"
  by (simp add: json_body_def)

lemma trim_examples:
  "trim '' abc '' = ''abc''" "trim ''abc'' = ''abc''" "trim ''  '' = []"
  "trim '' for the demo '' = ''for the demo''"
  by (simp_all add: trim_def is_ws_def)

text \<open>
  C3. \<open>validate\<close> returns false, and \<open>handleSubmit\<close> calls no mutation, exactly when the
  quantity is below 1, or above the item's available quantity, or the LDAP field is blank
  after trimming; otherwise \<open>validate\<close> returns true and the mutation is called. The
  errors \<open>handleSubmit\<close> records have the key \<open>ldap\<close> exactly when the LDAP field is blank,
  and the key \<open>quantity\<close> exactly when the quantity is out of range.
\<close>

theorem checkout_form_validation:
  "snd (CheckoutModal_validate item (formData st))
     = (\<not> (quantity (formData st) < 1 \<or> quantity (formData st) > quantity_available item
          \<or> trim (ldap (formData st)) = []))
   \<and> (snd (CheckoutModal_handleSubmit item st) = None)
     = (quantity (formData st) < 1 \<or> quantity (formData st) > quantity_available item
          \<or> trim (ldap (formData st)) = [])
   \<and> (''ldap'' \<in> set (map fst (errors (fst (CheckoutModal_handleSubmit item st)))))
     = (trim (ldap (formData st)) = [])
   \<and> (''quantity'' \<in> set (map fst (errors (fst (CheckoutModal_handleSubmit item st)))))
     = (quantity (formData st) < 1 \<or> quantity (formData st) > quantity_available item)"
proof -
  let ?fd = "formData st"
  have result: "snd (CheckoutModal_validate item ?fd)
      = (\<not> (quantity ?fd < 1 \<or> quantity ?fd > quantity_available item \<or> trim (ldap ?fd) = []))"
    by (rule validate_ok)
  have no_call: "(snd (CheckoutModal_handleSubmit item st) = None)
      = (quantity ?fd < 1 \<or> quantity ?fd > quantity_available item \<or> trim (ldap ?fd) = [])"
    by (simp add: handleSubmit_None validate_ok)
  have recorded: "map fst (errors (fst (CheckoutModal_handleSubmit item st)))
      = (if trim (ldap ?fd) = [] then [''ldap''] else []) @
        (if quantity ?fd < 1 \<or> quantity ?fd > quantity_available item then [''quantity''] else [])"
    by (simp only: handleSubmit_errors validate_keys)
  have ldap_key: "(''ldap'' \<in> set (map fst (errors (fst (CheckoutModal_handleSubmit item st)))))
      = (trim (ldap ?fd) = [])"
    by (simp add: recorded)
  have quantity_key: "(''quantity'' \<in> set (map fst (errors (fst (CheckoutModal_handleSubmit item st)))))
      = (quantity ?fd < 1 \<or> quantity ?fd > quantity_available item)"
    by (simp add: recorded)
  from result no_call ldap_key quantity_key show ?thesis
    by (intro conjI)
qed

subsection \<open>Overdue computation\<close>

lemma whole_days_bounds:
  fixes x :: int
  shows "86400 * (x div 86400) \<le> x \<and> x < 86400 * (x div 86400 + 1)"
proof -
  have eq: "86400 * (x div 86400) + x mod 86400 = x"
    by (rule mult_div_mod_eq)
  have lo: "0 \<le> x mod 86400" by simp
  have hi: "x mod 86400 < 86400" by simp
  have "d * q + r = x \<Longrightarrow> 0 \<le> r \<Longrightarrow> r < d \<Longrightarrow> d * q \<le> x \<and> x < d * (q + 1)"
    for d q r :: int
    by (simp add: algebra_simps)
  from this [OF eq lo hi] show ?thesis .
qed

lemma days_bounds:
  "e < now \<Longrightarrow> seconds_per_day * compute_days_overdue now None e \<le> now - e
                \<and> now - e < seconds_per_day * (compute_days_overdue now None e + 1)"
  using whole_days_bounds [of "now - e"]
  by (simp add: compute_days_overdue_def compute_is_overdue_def seconds_per_day_def)

lemma three_days: "compute_days_overdue now None (now - 3 * seconds_per_day) = 3"
  by (simp add: compute_days_overdue_def compute_is_overdue_def seconds_per_day_def)

lemma days_max: "compute_days_overdue now None e = max 0 ((now - e) div seconds_per_day)"
proof (cases "e < now")
  case True
  then have "0 \<le> (now - e) div 86400" by simp
  with True show ?thesis
    by (simp add: compute_days_overdue_def compute_is_overdue_def seconds_per_day_def)
next
  case False
  then have "(now - e) div 86400 \<le> 0"
    by (simp add: div_nonpos_pos_le0)
  with False show ?thesis
    by (simp add: compute_days_overdue_def compute_is_overdue_def seconds_per_day_def)
qed

lemma listActive_annotated:
  "list_all (\<lambda>a. is_overdue a = (expected_return_datetime a < now)
                  \<and> days_overdue a = max 0 ((now - expected_return_datetime a) div seconds_per_day))
        (listActive s now)"
  by (simp add: listActive_def list_all_iff days_max compute_is_overdue_def)

lemma future_not_overdue:
  "now < e \<Longrightarrow> \<not> compute_is_overdue now None e \<and> compute_days_overdue now None e = 0"
  by (simp add: compute_days_overdue_def compute_is_overdue_def)

text \<open>
  C4. For an open checkout, \<open>is_overdue\<close> holds exactly when the current time is past the
  expected return, and \<open>days_overdue\<close> is the number of whole days elapsed since the
  expected return, not below 0: three days after the expected return it is 3, and before
  the expected return the checkout is not overdue and \<open>days_overdue\<close> is 0. Every entry of
  \<open>listActive\<close> carries these two values.
\<close>

theorem overdue_computation:
  "compute_is_overdue now None e = (e < now)
   \<and> compute_days_overdue now None e = max 0 ((now - e) div seconds_per_day)
   \<and> (e < now \<longrightarrow> seconds_per_day * compute_days_overdue now None e \<le> now - e
                \<and> now - e < seconds_per_day * (compute_days_overdue now None e + 1))
   \<and> compute_days_overdue now None (now - 3 * seconds_per_day) = 3
   \<and> (now < e \<longrightarrow> \<not> compute_is_overdue now None e \<and> compute_days_overdue now None e = 0)
   \<and> list_all (\<lambda>a. is_overdue a = (expected_return_datetime a < now)
                  \<and> days_overdue a = max 0 ((now - expected_return_datetime a) div seconds_per_day))
        (listActive s now)"
proof -
  have a: "compute_is_overdue now None e = (e < now)"
    by (simp add: compute_is_overdue_def)
  show ?thesis
    using a days_max [of now e] days_bounds [of e now] three_days [of now]
      future_not_overdue [of now e] listActive_annotated [of now s]
    by blast
qed

theorem overdue_computation_witness:
  "compute_is_overdue 1000000 None 740795
   \<and> compute_days_overdue 1000000 None 740795 = 3
   \<and> \<not> compute_is_overdue 1000 None 2000
   \<and> compute_days_overdue 1000 None 2000 = 0
   \<and> map (\<lambda>a. (is_overdue a, days_overdue a)) (listActive (run ex_store (take 1 ex_ops)) 865000)
       = [(True, 3)]"
proof -
  have l: "map (\<lambda>a. (is_overdue a, days_overdue a)) (listActive (run ex_store (take 1 ex_ops)) 865000)
       = [(True, 3)]"
    by code_simp
  show ?thesis
    using overdue_computation [of 1000000 740795 ex_store] overdue_computation [of 1000 2000 ex_store] l
    by (simp add: seconds_per_day_def)
qed

subsection \<open>Requests of the checkout and check-in forms\<close>

text \<open>
  The default of the service that an omitted \<open>expected_return_datetime\<close> leaves in force:
  seven days after the checkout.
\<close>

lemma checkout_default_return:
  "checkout s now iid uldap qty None cond nts = Inr r \<Longrightarrow>
   co_expected_return_datetime (snd r) = now + 7 * seconds_per_day"
  by (auto simp: checkout_def Let_def split: if_splits option.splits)

text \<open>
  C5. When the form is valid, submitting it issues a POST to \<open>/api/checkout\<close> whose body
  holds \<open>item_id\<close>, \<open>user_ldap\<close> (the trimmed LDAP field), \<open>quantity\<close> and
  \<open>checkout_condition\<close>, with \<open>expected_return_datetime\<close> only when the return-date field is
  not empty and \<open>notes\<close> (trimmed) only when the notes are not blank, and nothing else.
\<close>

theorem checkout_request_shape:
  assumes "snd (CheckoutModal_validate item (formData st))"
  shows "map_option (\<lambda>v. request (checkoutMutation_mutate v :: ('r, 'r) Async))
           (snd (CheckoutModal_handleSubmit item st))
         = Some \<lparr>method = POST, url = ''/api/checkout'',
                 body = Some
                   ([(''item_id'', JNum (item_id item)),
                     (''user_ldap'', JStr (trim (ldap (formData st)))),
                     (''quantity'', JNum (quantity (formData st)))]
                    @ (if expectedReturn (formData st) = [] then []
                       else [(''expected_return_datetime'', JStr (expectedReturn (formData st)))])
                    @ [(''checkout_condition'', JStr (condition_str (condition (formData st))))]
                    @ (if trim (notes (formData st)) = [] then []
                       else [(''notes'', JStr (trim (notes (formData st))))])),
                 config = None\<rparr>"
  using handleSubmit_Some [OF assms]
  by (simp add: checkoutMutation_mutate_def checkoutItem_def apiClient_post_def
      json_body_Cons json_body_Nil or_undefined_def)

theorem checkout_request_shape_witness:
  "snd (CheckoutModal_validate ex_item (formData ex_form))
   \<and> map_option (\<lambda>v. request (checkoutMutation_mutate v :: (unit, unit) Async))
        (snd (CheckoutModal_handleSubmit ex_item ex_form))
     = Some \<lparr>method = POST, url = ''/api/checkout'',
             body = Some [(''item_id'', JNum 7), (''user_ldap'', JStr ''abc''),
                          (''quantity'', JNum 2), (''checkout_condition'', JStr ''good'')],
             config = None\<rparr>
   \<and> snd (CheckoutModal_validate ex_item (formData ex_form_full))
   \<and> map_option (\<lambda>v. request (checkoutMutation_mutate v :: (unit, unit) Async))
        (snd (CheckoutModal_handleSubmit ex_item ex_form_full))
     = Some \<lparr>method = POST, url = ''/api/checkout'',
             body = Some [(''item_id'', JNum 7), (''user_ldap'', JStr ''abc''),
                          (''quantity'', JNum 5),
                          (''expected_return_datetime'', JStr ''2026-01-31T17:00''),
                          (''checkout_condition'', JStr ''fair''),
                          (''notes'', JStr ''for the demo'')],
             config = None\<rparr>"
proof -
  have v: "snd (CheckoutModal_validate ex_item (formData ex_form))"
    by (simp add: validate_ok ex_item_def ex_form_def trim_examples)
  have w: "snd (CheckoutModal_validate ex_item (formData ex_form_full))"
    by (simp add: validate_ok ex_item_def ex_form_full_def trim_examples)
  have r: "map_option (\<lambda>v. request (checkoutMutation_mutate v :: (unit, unit) Async))
        (snd (CheckoutModal_handleSubmit ex_item ex_form))
     = Some \<lparr>method = POST, url = ''/api/checkout'',
             body = Some [(''item_id'', JNum 7), (''user_ldap'', JStr ''abc''),
                          (''quantity'', JNum 2), (''checkout_condition'', JStr ''good'')],
             config = None\<rparr>"
    using checkout_request_shape [OF v, where 'r = unit]
    by (simp add: ex_item_def ex_form_def trim_examples condition_str_def)
  have q: "map_option (\<lambda>v. request (checkoutMutation_mutate v :: (unit, unit) Async))
        (snd (CheckoutModal_handleSubmit ex_item ex_form_full))
     = Some \<lparr>method = POST, url = ''/api/checkout'',
             body = Some [(''item_id'', JNum 7), (''user_ldap'', JStr ''abc''),
                          (''quantity'', JNum 5),
                          (''expected_return_datetime'', JStr ''2026-01-31T17:00''),
                          (''checkout_condition'', JStr ''fair''),
                          (''notes'', JStr ''for the demo'')],
             config = None\<rparr>"
    using checkout_request_shape [OF w, where 'r = unit]
    by (simp add: ex_item_def ex_form_full_def trim_examples condition_str_def)
  from v r w q show ?thesis
    by (intro conjI)
qed

text \<open>
  C6. Submitting the check-in form issues a POST to \<open>/api/checkout/checkin\<close> whose body
  holds the checkout's \<open>checkout_id\<close> and the selected \<open>return_condition\<close>, one of
  \<open>good\<close>, \<open>fair\<close> and \<open>poor\<close>, with \<open>return_notes\<close> (trimmed) only when the notes are
  not blank after trimming, and nothing else.
\<close>

theorem checkin_request_shape:
  "request (checkinMutation_mutate (CheckinModal_handleSubmit co fd) :: ('r, 'r) Async)
     = \<lparr>method = POST, url = ''/api/checkout/checkin'',
        body = Some
          ([(''checkout_id'', JNum (checkout_id co)),
            (''return_condition'', JStr (condition_str (returnCondition fd)))]
           @ (if trim (returnNotes fd) = [] then []
              else [(''return_notes'', JStr (trim (returnNotes fd)))])),
        config = None\<rparr>
   \<and> condition_str (returnCondition fd) \<in> {''good'', ''fair'', ''poor''}"
  by (simp add: checkinMutation_mutate_def CheckinModal_handleSubmit_def checkinItem_def
      apiClient_post_def json_body_Cons json_body_Nil or_undefined_def condition_str_def
      split: Condition.split)

subsection \<open>Active checkouts query\<close>




subsection \<open>Search\<close>

lemma lower_char_idem: "lower_char (lower_char c) = lower_char c"
  by (auto simp: lower_char_def Let_def)

lemma lower_idem: "lower (lower s) = lower s"
  by (simp add: lower_def lower_char_idem)

lemma matches_lower: "matches (lower query) i = matches query i"
  by (simp add: matches_def lower_idem)

lemma matches_substring:
  "matches query i =
     ((\<exists>p s. lower (item_name i) = p @ lower query @ s)
      \<or> (\<exists>p s. lower (category i) = p @ lower query @ s))"
  by (simp add: matches_def sublist_def)

lemma search_set:
  "set (search its query loc) = {i \<in> set its. matches query i \<and> in_location loc i}"
  by (simp add: search_def)

lemma search_sorted: "sorted (map item_id (search its query loc))"
  by (simp add: search_def)

lemma search_stable:
  "filter (\<lambda>i. item_id i = k) (search its query loc)
     = filter (\<lambda>i. item_id i = k) (filter (\<lambda>i. matches query i \<and> in_location loc i) its)"
  unfolding search_def by (rule sort_key_stable)

lemma params_q: "map_of (searchInventory_params query loc) ''q'' = Some query"
  by (simp add: searchInventory_params_def Let_def split: option.splits)

lemma params_location:
  "map_of (searchInventory_params query loc) ''location''
     = (case loc of None \<Rightarrow> None | Some l \<Rightarrow> if l = [] then None else Some l)"
  by (simp add: searchInventory_params_def Let_def split: option.splits)

lemma params_keys:
  "map fst (searchInventory_params query loc)
     = ''q'' # (if loc = None \<or> loc = Some [] then [] else [''location''])"
  by (simp add: searchInventory_params_def Let_def split: option.splits)

text \<open>The request of the repository's test script, \<open>q=drill&location=san_jose\<close>.\<close>

lemma search_url_example:
  "url (request (searchInventory ''drill'' (Some ''san_jose'') :: (unit, unit) Async))
     = ''/api/inventory/search?q=drill&location=san_jose''"
  by code_simp

text \<open>
  C8, as stated, fails for the empty string: a location is supplied and the request has
  no parameter \<open>location\<close>, as when none is supplied.
\<close>

theorem search_empty_location_counterexample:
  "map_of (searchInventory_params ''drill'' (Some [])) ''location'' = None
   \<and> searchInventory_params ''drill'' (Some []) = searchInventory_params ''drill'' None"
  by (simp add: searchInventory_params_def Let_def)

text \<open>
  C8, amended. The search request is a GET to \<open>/api/inventory/search\<close> with the parameter
  \<open>q\<close> set to the query, and the parameter \<open>location\<close> present, with the location as its
  value, exactly when a non-empty location was supplied. The search returns the items
  whose lower-cased name or category contains the lower-cased query (and that are at the
  location, when one is given), sorted by \<open>item_id\<close>, items of equal \<open>item_id\<close> in their
  original order.
\<close>

theorem search_request_and_match:
  "request (searchInventory query loc :: ('r, 'r) Async)
     = \<lparr>method = GET,
        url = ''/api/inventory/search?'' @ URLSearchParams_toString (searchInventory_params query loc),
        body = None, config = None\<rparr>
   \<and> map fst (searchInventory_params query loc)
     = ''q'' # (if loc = None \<or> loc = Some [] then [] else [''location''])
   \<and> map_of (searchInventory_params query loc) ''q'' = Some query
   \<and> map_of (searchInventory_params query loc) ''location''
     = (case loc of None \<Rightarrow> None | Some l \<Rightarrow> if l = [] then None else Some l)
   \<and> set (search its query loc) = {i \<in> set its. matches query i \<and> in_location loc i}
   \<and> matches query i =
       ((\<exists>p s. lower (item_name i) = p @ lower query @ s)
        \<or> (\<exists>p s. lower (category i) = p @ lower query @ s))
   \<and> matches (lower query) i = matches query i
   \<and> sorted (map item_id (search its query loc))
   \<and> filter (\<lambda>i. item_id i = k) (search its query loc)
     = filter (\<lambda>i. item_id i = k) (filter (\<lambda>i. matches query i \<and> in_location loc i) its)"
  using params_keys [of query loc] params_q [of query loc] params_location [of query loc]
    search_set [of its query loc] matches_substring [of query i] matches_lower [of query i]
    search_sorted [of its query loc] search_stable [of k its query loc]
  by (simp add: searchInventory_def apiClient_get_def)

subsection \<open>Dashboard statistics\<close>

lemma oos_avail_length:
  "\<forall>item \<in> set its. 0 \<le> quantity_available item \<Longrightarrow>
   length (filter (\<lambda>item. quantity_available item = 0) its)
   + length (filter (\<lambda>item. quantity_available item > 0) its) = length its"
  by (induction its) auto

text \<open>
  C9, as stated for every list of items, fails for an item whose available quantity is
  negative: it is counted neither as Out of Stock nor as Available.
\<close>

theorem dashboard_negative_counterexample:
  "outOfStock (DashboardPage_stats [ex_negative] [] []) = 0
   \<and> availableItems (DashboardPage_stats [ex_negative] [] []) = 0
   \<and> totalItems (DashboardPage_stats [ex_negative] [] []) = 1"
  by (simp add: DashboardPage_stats_def ex_negative_def ex_item_def)

text \<open>
  C9, amended. For every list of items, the Dashboard counts are the numbers of positions
  of the list whose item has the property counted: all positions, those with a positive
  available quantity (Available), those with the available quantity 0 (Out of Stock), and
  those with a positive available quantity below \<open>quantity_total * 0.2\<close> (Low Stock).
  Every position counted as Low Stock is counted as Available, and none is counted both
  as Out of Stock and as Low Stock. When no item of the list has a negative available
  quantity, the Out-of-Stock count plus the Available count is the total count.
\<close>

theorem dashboard_stats_partition:
  "totalItems (DashboardPage_stats its acs ovs) = length its
   \<and> availableItems (DashboardPage_stats its acs ovs)
       = card {n. n < length its \<and> quantity_available (its ! n) > 0}
   \<and> outOfStock (DashboardPage_stats its acs ovs)
       = card {n. n < length its \<and> quantity_available (its ! n) = 0}
   \<and> lowStock (DashboardPage_stats its acs ovs)
       = card {n. n < length its \<and> (quantity_available (its ! n) > 0
            \<and> of_int (quantity_available (its ! n)) < times_0_2 (quantity_total (its ! n)))}
   \<and> {n. n < length its \<and> (quantity_available (its ! n) > 0
            \<and> of_int (quantity_available (its ! n)) < times_0_2 (quantity_total (its ! n)))}
       \<subseteq> {n. n < length its \<and> quantity_available (its ! n) > 0}
   \<and> lowStock (DashboardPage_stats its acs ovs) \<le> availableItems (DashboardPage_stats its acs ovs)
   \<and> {n. n < length its \<and> (quantity_available (its ! n) > 0
            \<and> of_int (quantity_available (its ! n)) < times_0_2 (quantity_total (its ! n)))}
       \<inter> {n. n < length its \<and> quantity_available (its ! n) = 0} = {}
   \<and> ((\<forall>item \<in> set its. 0 \<le> quantity_available item) \<longrightarrow>
        outOfStock (DashboardPage_stats its acs ovs) + availableItems (DashboardPage_stats its acs ovs)
          = totalItems (DashboardPage_stats its acs ovs))"
proof -
  let ?st = "DashboardPage_stats its acs ovs"
  let ?avail = "{n. n < length its \<and> quantity_available (its ! n) > 0}"
  let ?oos = "{n. n < length its \<and> quantity_available (its ! n) = 0}"
  let ?low = "{n. n < length its \<and> (quantity_available (its ! n) > 0
            \<and> of_int (quantity_available (its ! n)) < times_0_2 (quantity_total (its ! n)))}"
  have total: "totalItems ?st = length its"
    by (simp add: DashboardPage_stats_def)
  have avail: "availableItems ?st = card ?avail"
    by (simp add: DashboardPage_stats_def length_filter_conv_card)
  have oos: "outOfStock ?st = card ?oos"
    by (simp add: DashboardPage_stats_def length_filter_conv_card)
  have low: "lowStock ?st = card ?low"
    by (simp add: DashboardPage_stats_def length_filter_conv_card)
  have sub: "?low \<subseteq> ?avail"
    by blast
  have "finite ?avail"
    by simp
  with sub have "card ?low \<le> card ?avail"
    by (intro card_mono)
  with low avail have le: "lowStock ?st \<le> availableItems ?st"
    by simp
  have disj: "?low \<inter> ?oos = {}"
    by auto
  have part: "(\<forall>item \<in> set its. 0 \<le> quantity_available item) \<longrightarrow>
        outOfStock ?st + availableItems ?st = totalItems ?st"
    using oos_avail_length [of its] by (simp add: DashboardPage_stats_def)
  from total avail oos low sub le disj part show ?thesis
    by (intro conjI)
qed

theorem dashboard_stats_partition_witness:
  "list_all (\<lambda>item. 0 \<le> quantity_available item) ex_items
   \<and> totalItems (DashboardPage_stats ex_items [] []) = 3
   \<and> outOfStock (DashboardPage_stats ex_items [] []) = 1
   \<and> availableItems (DashboardPage_stats ex_items [] []) = 2
   \<and> lowStock (DashboardPage_stats ex_items [] []) = 1
   \<and> outOfStock (DashboardPage_stats ex_items [] []) + availableItems (DashboardPage_stats ex_items [] [])
       = totalItems (DashboardPage_stats ex_items [] [])"
proof -
  have h: "\<forall>item \<in> set ex_items. 0 \<le> quantity_available item"
    by (simp add: ex_items_def ex_item_def)
  have ten: "(of_int x < times_0_2 10) = (5 * x < 10)" for x
    by (rule times_0_2_less_iff) simp_all
  have v: "totalItems (DashboardPage_stats ex_items [] []) = 3
     \<and> outOfStock (DashboardPage_stats ex_items [] []) = 1
     \<and> availableItems (DashboardPage_stats ex_items [] []) = 2
     \<and> lowStock (DashboardPage_stats ex_items [] []) = 1"
    using ten [of 1] ten [of 8]
    by (simp add: DashboardPage_stats_def ex_items_def ex_item_def)
  have p: "outOfStock (DashboardPage_stats ex_items [] []) + availableItems (DashboardPage_stats ex_items [] [])
       = totalItems (DashboardPage_stats ex_items [] [])"
    using dashboard_stats_partition [of ex_items "[]" "[]"] h by blast
  from h v p show ?thesis
    by (simp add: list_all_iff)
qed

subsection \<open>Out-of-stock items offer no checkout\<close>

text \<open>
  C10. \<open>ItemCard\<close> has a button to click exactly when the item's available quantity is
  positive and a checkout handler is supplied. For an item whose available quantity is not
  positive, \<open>ItemCard\<close> renders only the details link, \<open>ItemDetailsPage\<close> renders the disabled
  Out-of-Stock button in place of the checkout button, neither view has an event to
  raise, and submitting the checkout form for that item calls no mutation.
\<close>

theorem no_checkout_when_out_of_stock:
  assumes "quantity_available item \<le> 0"
  shows "ItemCard_actions item onCheckout
           = [Link (''/item/'' @ show_int (item_id item)) ''View Details'']
       \<and> clickable (ItemCard_actions item onCheckout) = []
       \<and> ItemDetailsPage_actions item
           = [Button ''Out of Stock'' True None,
              Link (''/checkouts?item_id='' @ show_int (item_id item)) ''View Active Checkouts'']
       \<and> clickable (ItemDetailsPage_actions item) = []
       \<and> snd (CheckoutModal_handleSubmit item st) = None
       \<and> (clickable (ItemCard_actions i h) \<noteq> []) = (quantity_available i > 0 \<and> h \<noteq> None)
       \<and> (clickable (ItemDetailsPage_actions i) \<noteq> []) = (quantity_available i > 0)"
  using assms
  by (auto simp: ItemCard_actions_def ItemDetailsPage_actions_def handleSubmit_None validate_ok
      split: option.splits)

theorem no_checkout_when_out_of_stock_witness:
  "quantity_available ex_out_of_stock \<le> 0
   \<and> ItemCard_actions ex_out_of_stock (Some (\<lambda>i. i)) = [Link ''/item/7'' ''View Details'']
   \<and> clickable (ItemDetailsPage_actions ex_out_of_stock) = []
   \<and> snd (CheckoutModal_handleSubmit ex_out_of_stock ex_form) = None
   \<and> clickable (ItemCard_actions ex_item (Some (\<lambda>i. i))) = [ex_item]"
proof -
  have h: "quantity_available ex_out_of_stock \<le> 0"
    by (simp add: ex_out_of_stock_def ex_item_def)
  have l: "''/item/'' @ show_int (item_id ex_out_of_stock) = ''/item/7''"
    by code_simp
  have c: "clickable (ItemCard_actions ex_item (Some (\<lambda>i. i))) = [ex_item]"
    by (simp add: ItemCard_actions_def ex_item_def)
  show ?thesis
    using h l c no_checkout_when_out_of_stock [OF h, of "Some (\<lambda>i. i)" ex_form ex_item "Some (\<lambda>i. i)"]
    by simp
qed

end
